theory Spec2Isabelle
  imports Main "HOL-Library.Word" "HOL-Library.Char_ord" "HOL-Library.List_Lexorder"
begin

unbundle bit_operations_syntax

section \<open>Basic types\<close>

text \<open>
  \<open>int32_t mState\<close> and \<open>uint32_t _uiNbModifications\<close> of \<open>Criterion.h\<close> are 32-bit
  words: addition wraps, \<open>AND\<close> is bitwise, equality is equality of bit patterns. The
  \<open>int\<close> of the value pairs is the same 32-bit word.
\<close>

type_synonym int32 = "32 word"
type_synonym uint32 = "32 word"

text \<open>The only exception the two source files name: \<open>std::out_of_range\<close>.\<close>

datatype exception = OutOfRange

section \<open>The \<open>std::map\<close> with \<open>std::string\<close> keys\<close>

text \<open>
  A \<open>std::map<std::string, V>\<close> is the list of its entries in iteration order, that is
  in the order of the keys (\<open>std::string\<close> compares bytewise and lexicographically, the
  order of \<open>string\<close> here). \<open>at\<close> throws \<open>std::out_of_range\<close> on a missing key,
  \<open>emplace\<close> inserts only when the key is not present yet.
\<close>

type_synonym 'v std_map = "(string \<times> 'v) list"

definition map_at :: "'v std_map \<Rightarrow> string \<Rightarrow> exception + 'v" where
  "map_at m k = (case map_of m k of None \<Rightarrow> Inl OutOfRange | Some v \<Rightarrow> Inr v)"

definition map_count :: "'v std_map \<Rightarrow> string \<Rightarrow> nat" where
  "map_count m k = (case map_of m k of None \<Rightarrow> 0 | Some v \<Rightarrow> 1)"

definition map_emplace :: "string \<Rightarrow> 'v \<Rightarrow> 'v std_map \<Rightarrow> 'v std_map" where
  "map_emplace k v m =
     (case map_of m k of Some w \<Rightarrow> m | None \<Rightarrow> insort_key fst (k, v) m)"

section \<open>Criterion\<close>

text \<open>
  The class of \<open>Criterion.h\<close>. A match method is a \<open>std::function<bool (int)>\<close> bound to
  the criterion it belongs to; here it takes the current state of that criterion as its
  first argument and the state to match as its second. The logger reference is left
  out: it has no part in any value returned. \<open>dynamicClass\<close> is the class the object
  was constructed as, which decides the virtual calls.
\<close>

type_synonym MatchMethod = "int32 \<Rightarrow> int32 \<Rightarrow> bool"
type_synonym MatchMethods = "MatchMethod std_map"
type_synonym ValuePairs = "int32 std_map"

datatype CriterionClass = ExclusiveCriterion | InclusiveCriterion

record Criterion =
  mValuePairs :: ValuePairs
  mMatchMethods :: MatchMethods
  mState :: int32
  uiNbModifications :: uint32
  mName :: string
  dynamicClass :: CriterionClass

text \<open>
  Modelled from the spec: the bodies of the member functions of \<open>Criterion\<close> and of
  \<open>InclusiveCriterion\<close> (\<open>Criterion.cpp\<close>, \<open>InclusiveCriterion.h\<close>,
  \<open>InclusiveCriterion.cpp\<close>) are missing; only the declarations of \<open>Criterion.h\<close>
  are at hand. The protected initializer constructor stores the value pairs and the
  match methods of the concrete class; the state starts at the "unset" default 0 and
  the modification counter at 0.
\<close>

definition Criterion_init ::
  "string \<Rightarrow> ValuePairs \<Rightarrow> MatchMethods \<Rightarrow> CriterionClass \<Rightarrow> Criterion" where
  "Criterion_init name derivedValuePairs derivedMatchMethods cls =
     \<lparr> mValuePairs = derivedValuePairs,
       mMatchMethods = derivedMatchMethods,
       mState = 0,
       uiNbModifications = 0,
       mName = name,
       dynamicClass = cls \<rparr>"

text \<open>
  Modelled from the spec: the public constructor of \<open>Criterion\<close> (missing). The
  exclusive kind has the match methods "Is" (state equals the argument) and "Is Not"
  (state differs), and no others.
\<close>

definition Criterion_ctor :: "string \<Rightarrow> Criterion" where
  "Criterion_ctor name =
     Criterion_init name []
       [(''Is'', \<lambda>state arg. state = arg), (''Is Not'', \<lambda>state arg. state \<noteq> arg)]
       ExclusiveCriterion"

text \<open>
  Modelled from the spec: the constructor of \<open>InclusiveCriterion\<close> (missing). Its
  match methods are replaced with "Includes" (\<open>(state & arg) == arg\<close>) and "Excludes"
  (\<open>(state & arg) == 0\<close>).
\<close>

definition InclusiveCriterion_ctor :: "string \<Rightarrow> Criterion" where
  "InclusiveCriterion_ctor name =
     Criterion_init name []
       [(''Excludes'', \<lambda>state arg. state AND arg = 0),
        (''Includes'', \<lambda>state arg. state AND arg = arg)]
       InclusiveCriterion"

text \<open>
  Modelled from the spec: \<open>Criterion::setCriterionState\<close> (missing) unconditionally
  stores the new state and increments the modification counter iff the new state
  differs from the previous one. The counter is the \<open>uint32_t\<close> of the header.
\<close>

definition setCriterionState :: "int32 \<Rightarrow> Criterion \<Rightarrow> Criterion" where
  "setCriterionState iState c =
     c \<lparr> mState := iState,
         uiNbModifications :=
           (if iState \<noteq> mState c then uiNbModifications c + 1 else uiNbModifications c) \<rparr>"

text \<open>
  Modelled from the spec: the getters of \<open>Criterion\<close> (bodies missing) return the raw
  state and the name; the virtual \<open>isInclusive\<close> is false for the base class and true
  for \<open>InclusiveCriterion\<close>.
\<close>

definition getCriterionState :: "Criterion \<Rightarrow> int32" where
  "getCriterionState c = mState c"

definition getCriterionName :: "Criterion \<Rightarrow> string" where
  "getCriterionName c = mName c"

definition isInclusive :: "Criterion \<Rightarrow> bool" where
  "isInclusive c = (dynamicClass c = InclusiveCriterion)"

text \<open>
  Modelled from the spec: \<open>Criterion::hasBeenModified\<close> (missing) is
  \<open>modificationCount > 0\<close>, and \<open>Criterion::resetModifiedStatus\<close> (missing) sets the
  counter to 0.
\<close>

definition hasBeenModified :: "Criterion \<Rightarrow> bool" where
  "hasBeenModified c = (0 < uiNbModifications c)"

definition Criterion_resetModifiedStatus :: "Criterion \<Rightarrow> Criterion" where
  "Criterion_resetModifiedStatus c = c \<lparr> uiNbModifications := 0 \<rparr>"

text \<open>
  Modelled from the spec: \<open>Criterion::addValuePair\<close> (missing) fails, with an error
  that says which of the two is already there, if the literal or the numerical value
  already exists in the table, and leaves the criterion as it was; otherwise it inserts
  the pair and succeeds. The result is the returned \<open>bool\<close>, the \<open>error\<close> out-parameter
  (\<open>None\<close>: not written) and the criterion afterwards.
\<close>

datatype ValuePairError =
    LiteralAlreadyPresent string int32
  | NumericalAlreadyPresent string int32

definition addValuePair ::
  "int32 \<Rightarrow> string \<Rightarrow> Criterion \<Rightarrow> bool \<times> ValuePairError option \<times> Criterion" where
  "addValuePair numericalValue literalValue c =
     (if map_count (mValuePairs c) literalValue = 1 then
        (False, Some (LiteralAlreadyPresent literalValue numericalValue), c)
      else if numericalValue \<in> set (map snd (mValuePairs c)) then
        (False, Some (NumericalAlreadyPresent literalValue numericalValue), c)
      else
        (True, None,
         c \<lparr> mValuePairs := map_emplace literalValue numericalValue (mValuePairs c) \<rparr>))"

text \<open>
  Modelled from the spec: \<open>Criterion::getLiteralValue\<close> (missing) looks the numerical
  value up in the table; a value that is not there is a normal "not found" (\<open>None\<close>).
\<close>

definition getLiteralValue :: "int32 \<Rightarrow> Criterion \<Rightarrow> string option" where
  "getLiteralValue numericalValue c =
     map_option fst (find (\<lambda>p. snd p = numericalValue) (mValuePairs c))"

text \<open>
  Modelled from the spec: \<open>getNumericalValue\<close> (missing) is the symmetric lookup. For
  the inclusive kind it additionally resolves the literal form of a compound bitmask,
  the constituent literals joined by the separator \<open>|\<close>, by OR-ing the values of the
  constituents; one unknown constituent makes the whole lookup a "not found".
\<close>

fun splitOn :: "char \<Rightarrow> string \<Rightarrow> string list" where
  "splitOn d [] = [[]]"
| "splitOn d (c # cs) =
     (if c = d then [] # splitOn d cs
      else (case splitOn d cs of [] \<Rightarrow> [[c]] | t # ts \<Rightarrow> (c # t) # ts))"

fun orLiterals :: "ValuePairs \<Rightarrow> string list \<Rightarrow> int32 option" where
  "orLiterals m [] = Some 0"
| "orLiterals m (t # ts) =
     (case map_of m t of
        None \<Rightarrow> None
      | Some n \<Rightarrow> (case orLiterals m ts of None \<Rightarrow> None | Some r \<Rightarrow> Some (n OR r)))"

definition getNumericalValue :: "string \<Rightarrow> Criterion \<Rightarrow> int32 option" where
  "getNumericalValue literalValue c =
     (case map_of (mValuePairs c) literalValue of
        Some n \<Rightarrow> Some n
      | None \<Rightarrow>
          if isInclusive c
          then orLiterals (mValuePairs c) (splitOn (CHR ''|'') literalValue)
          else None)"

text \<open>
  Modelled from the spec: \<open>Criterion::match\<close> (missing) looks the method up in the
  match-method table and calls it with the state to match; the header documents
  \<open>@throw std::out_of_range if the desired match method does not exist\<close>.
  \<open>isMatchMethodAvailable\<close> (missing) is the existence check.
\<close>

definition match :: "Criterion \<Rightarrow> string \<Rightarrow> int32 \<Rightarrow> exception + bool" where
  "match c method state =
     (case map_at (mMatchMethods c) method of
        Inl e \<Rightarrow> Inl e
      | Inr m \<Rightarrow> Inr (m (mState c) state))"

definition isMatchMethodAvailable :: "Criterion \<Rightarrow> string \<Rightarrow> bool" where
  "isMatchMethodAvailable c method = (map_count (mMatchMethods c) method = 1)"

text \<open>
  The calls that change a criterion, as a caller can issue them through a handle, and
  a run of such calls. Every criterion a program holds is a constructed one after some
  run.
\<close>

datatype CriterionCall =
    SetCriterionState int32
  | AddValuePair int32 string
  | ResetModifiedStatus

fun call :: "CriterionCall \<Rightarrow> Criterion \<Rightarrow> Criterion" where
  "call (SetCriterionState iState) c = setCriterionState iState c"
| "call (AddValuePair n s) c = snd (snd (addValuePair n s c))"
| "call ResetModifiedStatus c = Criterion_resetModifiedStatus c"

definition calls :: "CriterionCall list \<Rightarrow> Criterion \<Rightarrow> Criterion" where
  "calls cs c = fold call cs c"

section \<open>Criteria\<close>

text \<open>
  The registry of \<open>Criteria.cpp\<close>. A \<open>CriterionWrapper\<close> owns its criterion: it is the
  address the wrapper holds together with the object at that address. A
  \<open>Criterion*\<close> handle is an address, \<open>None\<close> for \<open>nullptr\<close>. \<open>nextAddr\<close> is the
  address the next \<open>new\<close> returns; addresses are never reused.

  Modelled from the spec: \<open>Criteria.h\<close> is missing, and with it the declaration of
  \<open>mCriteria\<close>; it is a mapping from the criterion name to the exclusively owned
  criterion on which an insertion with an existing key is a silent no-op, as the
  \<open>at\<close> and \<open>emplace\<close> of \<open>Criteria.cpp\<close> require.
\<close>

type_synonym addr = nat
type_synonym CriterionWrapper = "addr \<times> Criterion"

record Criteria =
  mCriteria :: "CriterionWrapper std_map"
  nextAddr :: addr

definition Criteria_ctor :: Criteria where
  "Criteria_ctor = \<lparr> mCriteria = [], nextAddr = 0 \<rparr>"

definition getCriterionPointer :: "Criteria \<Rightarrow> string \<Rightarrow> exception + addr option" where
  "getCriterionPointer cs name =
     (case map_at (mCriteria cs) name of
        Inr w \<Rightarrow> Inr (Some (fst w))
      | Inl OutOfRange \<Rightarrow> Inr None)"

definition createExclusiveCriterion ::
  "string \<Rightarrow> Criteria \<Rightarrow> (exception + addr option) \<times> Criteria" where
  "createExclusiveCriterion name cs =
     (let p = nextAddr cs;
          cs' = \<lparr> mCriteria = map_emplace name (p, Criterion_ctor name) (mCriteria cs),
                  nextAddr = Suc p \<rparr>
      in (getCriterionPointer cs' name, cs'))"

definition createInclusiveCriterion ::
  "string \<Rightarrow> Criteria \<Rightarrow> (exception + addr option) \<times> Criteria" where
  "createInclusiveCriterion name cs =
     (let p = nextAddr cs;
          cs' = \<lparr> mCriteria = map_emplace name (p, InclusiveCriterion_ctor name) (mCriteria cs),
                  nextAddr = Suc p \<rparr>
      in (getCriterionPointer cs' name, cs'))"

definition getSelectionCriterion :: "Criteria \<Rightarrow> string \<Rightarrow> exception + addr option" where
  "getSelectionCriterion cs name = getCriterionPointer cs name"

text \<open>
  \<open>listSelectionCriteria\<close> appends to the list it is given. The body of
  \<open>Criterion::getFormattedDescription\<close> is missing: it is the parameter
  \<open>getFormattedDescription\<close>. The member function is \<open>const\<close> and calls a
  \<open>const\<close> member function on each criterion: the registry comes back as it was.
\<close>

fun listLoop ::
  "(bool \<Rightarrow> bool \<Rightarrow> Criterion \<Rightarrow> string) \<Rightarrow> bool \<Rightarrow> bool \<Rightarrow>
   CriterionWrapper std_map \<Rightarrow> string list \<Rightarrow> string list" where
  "listLoop getFormattedDescription withTypeInfo humanReadable [] results = results"
| "listLoop getFormattedDescription withTypeInfo humanReadable (criterion # rest) results =
     listLoop getFormattedDescription withTypeInfo humanReadable rest
       (results @ [getFormattedDescription withTypeInfo humanReadable (snd (snd criterion))])"

definition listSelectionCriteria ::
  "(bool \<Rightarrow> bool \<Rightarrow> Criterion \<Rightarrow> string) \<Rightarrow> string list \<Rightarrow> bool \<Rightarrow> bool \<Rightarrow>
   Criteria \<Rightarrow> string list \<times> Criteria" where
  "listSelectionCriteria getFormattedDescription results withTypeInfo humanReadable cs =
     (listLoop getFormattedDescription withTypeInfo humanReadable (mCriteria cs) results, cs)"

fun resetLoop :: "CriterionWrapper std_map \<Rightarrow> CriterionWrapper std_map" where
  "resetLoop [] = []"
| "resetLoop (criterion # rest) =
     (fst criterion, fst (snd criterion), Criterion_resetModifiedStatus (snd (snd criterion)))
       # resetLoop rest"

definition Criteria_resetModifiedStatus :: "Criteria \<Rightarrow> Criteria" where
  "Criteria_resetModifiedStatus cs = cs \<lparr> mCriteria := resetLoop (mCriteria cs) \<rparr>"

text \<open>
  What a caller does with a handle: read the criterion at an address the registry
  owns (\<open>None\<close>: the registry owns no criterion there), or change it in place.
\<close>

definition deref :: "Criteria \<Rightarrow> addr \<Rightarrow> Criterion option" where
  "deref cs p = map_of (map snd (mCriteria cs)) p"

definition registered :: "Criteria \<Rightarrow> string \<Rightarrow> Criterion option" where
  "registered cs name = map_option snd (map_of (mCriteria cs) name)"

definition through :: "addr \<Rightarrow> (Criterion \<Rightarrow> Criterion) \<Rightarrow> Criteria \<Rightarrow> Criteria" where
  "through p f cs =
     cs \<lparr> mCriteria :=
            map (\<lambda>w. (fst w, fst (snd w), if fst (snd w) = p then f (snd (snd w)) else snd (snd w)))
              (mCriteria cs) \<rparr>"

text \<open>
  What \<open>new\<close> and the owning wrappers guarantee of the addresses in a registry: no
  two wrappers hold the same address, and every address held was handed out before.
\<close>

definition wfCriteria :: "Criteria \<Rightarrow> bool" where
  "wfCriteria cs =
     (distinct (map (\<lambda>w. fst (snd w)) (mCriteria cs)) \<and>
      list_all (\<lambda>w. fst (snd w) < nextAddr cs) (mCriteria cs))"

section \<open>Facts about the \<open>std::map\<close> operations\<close>

lemma map_of_absent: "k \<notin> fst ` set m \<Longrightarrow> map_of m k = None"
  by (simp add: map_of_eq_None_iff)

lemma map_at_absent: "k \<notin> fst ` set m \<Longrightarrow> map_at m k = Inl OutOfRange"
  by (simp add: map_at_def map_of_absent)

lemma map_count_absent: "k \<notin> fst ` set m \<Longrightarrow> map_count m k = 0"
  by (simp add: map_count_def map_of_absent)

lemma map_count_present: "k \<in> fst ` set m \<Longrightarrow> map_count m k = 1"
  by (cases "map_of m k") (simp_all add: map_count_def map_of_eq_None_iff)

lemma map_of_insort_key_fst:
  "map_of (insort_key fst (k, v) m) = (map_of m)(k \<mapsto> v)" if "map_of m k = None"
  using that by (induction m) (auto split: if_splits)

lemma map_emplace_present: "map_of m k = Some w \<Longrightarrow> map_emplace k v m = m"
  by (simp add: map_emplace_def)

lemma map_emplace_absent:
  "map_of m k = None \<Longrightarrow> map_emplace k v m = insort_key fst (k, v) m"
  by (simp add: map_emplace_def)

lemma map_of_map_emplace_absent:
  "map_of m k = None \<Longrightarrow> map_of (map_emplace k v m) = (map_of m)(k \<mapsto> v)"
  by (simp add: map_emplace_absent map_of_insort_key_fst)

lemma distinct_map_insort_key_any:
  "distinct (map g (insort_key f x xs)) = (g x \<notin> g ` set xs \<and> distinct (map g xs))"
  by (induction xs) (auto simp add: set_insort_key)

text \<open>The keys of a map stay sorted and without duplicates under \<open>emplace\<close>.\<close>

lemma map_emplace_keys:
  assumes "sorted (map fst m) \<and> distinct (map fst m)"
  shows "sorted (map fst (map_emplace k v m)) \<and> distinct (map fst (map_emplace k v m))"
proof (cases "map_of m k")
  case None
  then have "k \<notin> fst ` set m"
    by (simp add: map_of_eq_None_iff)
  with None assms show ?thesis
    by (simp add: map_emplace_absent sorted_insort_key distinct_insort_key)
next
  case (Some w)
  with assms show ?thesis
    by (simp add: map_emplace_present)
qed

section \<open>Match methods\<close>

lemma match_table:
  "match c method a =
     (case map_of (mMatchMethods c) method of
        None \<Rightarrow> Inl OutOfRange | Some m \<Rightarrow> Inr (m (mState c) a))"
  by (simp add: match_def map_at_def split: option.splits)

lemma mMatchMethods_call [simp]: "mMatchMethods (call x c) = mMatchMethods c"
  by (cases x)
    (simp_all add: setCriterionState_def addValuePair_def Criterion_resetModifiedStatus_def)

lemma mMatchMethods_calls [simp]: "mMatchMethods (calls xs c) = mMatchMethods c"
  unfolding calls_def by (induction xs arbitrary: c) simp_all

lemma dynamicClass_call [simp]: "dynamicClass (call x c) = dynamicClass c"
  by (cases x)
    (simp_all add: setCriterionState_def addValuePair_def Criterion_resetModifiedStatus_def)

lemma dynamicClass_calls [simp]: "dynamicClass (calls xs c) = dynamicClass c"
  unfolding calls_def by (induction xs arbitrary: c) simp_all

text \<open>
  Claim C1. For every criterion and every method name that is not in its match-method
  table, \<open>match\<close> fails with the out-of-range error, which reaches the caller as the
  \<open>Inl\<close> result and not as a \<open>false\<close>; \<open>isMatchMethodAvailable\<close> on the same name
  returns \<open>false\<close>, and being a \<open>bool\<close> it cannot fail.
\<close>

theorem match_unknown_method:
  "method \<notin> fst ` set (mMatchMethods c) \<Longrightarrow>
     match c method state = Inl OutOfRange \<and> isMatchMethodAvailable c method = False"
  by (simp add: match_def isMatchMethodAvailable_def map_at_absent map_count_absent)

text \<open>An exclusive criterion in state 1 asked for "Includes".\<close>

theorem match_unknown_method_witness:
  "''Includes'' \<notin> fst ` set (mMatchMethods (setCriterionState 1 (Criterion_ctor ''mode'')))
   \<and> match (setCriterionState 1 (Criterion_ctor ''mode'')) ''Includes'' 1 = Inl OutOfRange
   \<and> isMatchMethodAvailable (setCriterionState 1 (Criterion_ctor ''mode'')) ''Includes'' = False"
  using match_unknown_method [of "''Includes''" "setCriterionState 1 (Criterion_ctor ''mode'')" 1]
  by (simp add: setCriterionState_def Criterion_ctor_def Criterion_init_def)

text \<open>
  Claim C2. For every inclusive criterion \<open>i\<close> (constructed as one, after any run of
  calls) and every 32-bit argument \<open>a\<close>, "Includes" returns true iff
  \<open>(state & a) == a\<close>, hence always for \<open>a = 0\<close>, and "Excludes" returns true iff
  \<open>(state & a) == 0\<close>. For every exclusive criterion \<open>e\<close>, "Is" returns whether the state
  equals the argument, "Is Not" whether it differs, and these two are the only
  methods it has: any other name is not available and \<open>match\<close> on it does not return.
\<close>

theorem match_methods_by_kind:
  assumes "i = calls xs (InclusiveCriterion_ctor name)"
    and "e = calls ys (Criterion_ctor name')"
  shows "match i ''Includes'' a = Inr (mState i AND a = a)
       \<and> match i ''Includes'' 0 = Inr True
       \<and> match i ''Excludes'' a = Inr (mState i AND a = 0)
       \<and> match e ''Is'' a = Inr (mState e = a)
       \<and> match e ''Is Not'' a = Inr (mState e \<noteq> a)
       \<and> isMatchMethodAvailable e method = (method = ''Is'' \<or> method = ''Is Not'')
       \<and> (\<exists>b. match e method a = Inr b) = (method = ''Is'' \<or> method = ''Is Not'')"
  using assms
  by (auto simp add: match_table isMatchMethodAvailable_def map_count_def
      InclusiveCriterion_ctor_def Criterion_ctor_def Criterion_init_def)

lemma ex_state:
  "mState (calls [SetCriterionState s] c) = s"
  by (simp add: calls_def setCriterionState_def)

text \<open>An inclusive criterion in state 5 and an exclusive one in state 1.\<close>

theorem match_methods_by_kind_witness:
  "match (calls [SetCriterionState 5] (InclusiveCriterion_ctor ''features'')) ''Includes'' 1
     = Inr True
   \<and> match (calls [SetCriterionState 5] (InclusiveCriterion_ctor ''features'')) ''Includes'' 2
     = Inr False
   \<and> match (calls [SetCriterionState 5] (InclusiveCriterion_ctor ''features'')) ''Excludes'' 2
     = Inr True
   \<and> match (calls [SetCriterionState 5] (InclusiveCriterion_ctor ''features'')) ''Includes'' 0
     = Inr True
   \<and> match (calls [SetCriterionState 1] (Criterion_ctor ''mode'')) ''Is'' 1 = Inr True
   \<and> match (calls [SetCriterionState 1] (Criterion_ctor ''mode'')) ''Is Not'' 1 = Inr False
   \<and> \<not> isMatchMethodAvailable (calls [SetCriterionState 1] (Criterion_ctor ''mode'')) ''Includes''"
  using
    match_methods_by_kind [of "calls [SetCriterionState 5] (InclusiveCriterion_ctor ''features'')"
      "[SetCriterionState 5]" "''features''"
      "calls [SetCriterionState 1] (Criterion_ctor ''mode'')" "[SetCriterionState 1]" "''mode''"
      1 "''Includes''"]
    match_methods_by_kind [of "calls [SetCriterionState 5] (InclusiveCriterion_ctor ''features'')"
      "[SetCriterionState 5]" "''features''"
      "calls [SetCriterionState 1] (Criterion_ctor ''mode'')" "[SetCriterionState 1]" "''mode''"
      2 "''Includes''"]
  by (simp add: ex_state)

section \<open>The modification counter\<close>

text \<open>
  Claim C3. For every criterion, \<open>setCriterionState\<close> stores the new state
  unconditionally and increments the modification counter iff the new state differs
  from the previous one; it returns the criterion and has no error result.
  \<open>hasBeenModified\<close> is false right after construction (of either kind); on a
  criterion that is not modified it becomes true iff \<open>setCriterionState\<close> is called
  with a value different from the current state; and the call with the current value
  never changes it.
\<close>

theorem setCriterionState_modification:
  "getCriterionState (setCriterionState newState c) = newState
   \<and> uiNbModifications (setCriterionState newState c) =
       (if newState \<noteq> mState c then uiNbModifications c + 1 else uiNbModifications c)
   \<and> \<not> hasBeenModified (Criterion_ctor name)
   \<and> \<not> hasBeenModified (InclusiveCriterion_ctor name)
   \<and> (\<not> hasBeenModified c \<longrightarrow>
        hasBeenModified (setCriterionState newState c) = (newState \<noteq> mState c))
   \<and> hasBeenModified (setCriterionState (mState c) c) = hasBeenModified c"
  by (simp add: setCriterionState_def getCriterionState_def hasBeenModified_def
      Criterion_ctor_def InclusiveCriterion_ctor_def Criterion_init_def
      word_neq_0_conv [symmetric])

text \<open>A new criterion, set to 3 and set to the 0 it already has.\<close>

theorem setCriterionState_modification_witness:
  "\<not> hasBeenModified (Criterion_ctor ''mode'')
   \<and> hasBeenModified (setCriterionState 3 (Criterion_ctor ''mode''))
   \<and> \<not> hasBeenModified (setCriterionState 0 (Criterion_ctor ''mode''))
   \<and> getCriterionState (setCriterionState 3 (Criterion_ctor ''mode'')) = 3"
  using setCriterionState_modification [of 3 "Criterion_ctor ''mode''" "''mode''"]
    setCriterionState_modification [of 0 "Criterion_ctor ''mode''" "''mode''"]
  by (simp add: Criterion_ctor_def Criterion_init_def)

text \<open>
  On a criterion that is modified already, a further change keeps it modified as long
  as the 32-bit counter does not wrap, that is short of \<open>2^32 - 1\<close> changes since the
  last reset.
\<close>

lemma hasBeenModified_monotone:
  "uiNbModifications c \<noteq> - 1 \<Longrightarrow>
   hasBeenModified (setCriterionState newState c) = (hasBeenModified c \<or> newState \<noteq> mState c)"
  by (auto simp add: setCriterionState_def hasBeenModified_def word_neq_0_conv [symmetric]
      add_eq_0_iff2)

text \<open>At the wrap the counter is back at 0 and the criterion reads as not modified.\<close>

lemma hasBeenModified_wraps:
  "uiNbModifications c = - 1 \<Longrightarrow> newState \<noteq> mState c \<Longrightarrow>
   \<not> hasBeenModified (setCriterionState newState c)"
  by (simp add: setCriterionState_def hasBeenModified_def)

section \<open>The value pairs\<close>

lemma addValuePair_rejects:
  "literalValue \<in> fst ` set (mValuePairs c) \<or> numericalValue \<in> snd ` set (mValuePairs c) \<Longrightarrow>
   addValuePair numericalValue literalValue c =
     (False,
      Some ((if literalValue \<in> fst ` set (mValuePairs c)
             then LiteralAlreadyPresent else NumericalAlreadyPresent) literalValue numericalValue),
      c)"
  by (auto simp add: addValuePair_def map_count_present map_count_absent)

lemma addValuePair_accepts:
  "literalValue \<notin> fst ` set (mValuePairs c) \<Longrightarrow> numericalValue \<notin> snd ` set (mValuePairs c) \<Longrightarrow>
   addValuePair numericalValue literalValue c =
     (True, None,
      c \<lparr> mValuePairs := insort_key fst (literalValue, numericalValue) (mValuePairs c) \<rparr>)"
  by (simp add: addValuePair_def map_count_absent map_emplace_absent map_of_absent)

text \<open>
  Claim C4. For every criterion, \<open>addValuePair\<close> returns false with an error when the
  literal or the numerical value is already in the table, and the criterion, its table
  included, is what it was. Otherwise it returns true, the table is the old one with
  the pair added and nothing else of the criterion changes. Adding the same pair again
  then fails and leaves the table as the first call made it.
\<close>

theorem addValuePair_duplicate:
  "(literalValue \<in> fst ` set (mValuePairs c) \<or> numericalValue \<in> snd ` set (mValuePairs c) \<longrightarrow>
      (\<exists>error. addValuePair numericalValue literalValue c = (False, Some error, c)))
   \<and> (literalValue \<notin> fst ` set (mValuePairs c) \<and> numericalValue \<notin> snd ` set (mValuePairs c) \<longrightarrow>
      (\<exists>c'. addValuePair numericalValue literalValue c = (True, None, c')
         \<and> set (mValuePairs c') = insert (literalValue, numericalValue) (set (mValuePairs c))
         \<and> c' = c \<lparr> mValuePairs := mValuePairs c' \<rparr>
         \<and> (\<exists>error. addValuePair numericalValue literalValue c' = (False, Some error, c'))))"
proof (intro conjI impI)
  assume "literalValue \<in> fst ` set (mValuePairs c) \<or> numericalValue \<in> snd ` set (mValuePairs c)"
  then show "\<exists>error. addValuePair numericalValue literalValue c = (False, Some error, c)"
    by (simp add: addValuePair_rejects)
next
  assume fresh:
    "literalValue \<notin> fst ` set (mValuePairs c) \<and> numericalValue \<notin> snd ` set (mValuePairs c)"
  define c' where
    "c' = c \<lparr> mValuePairs := insort_key fst (literalValue, numericalValue) (mValuePairs c) \<rparr>"
  have ok: "addValuePair numericalValue literalValue c = (True, None, c')"
    using fresh by (simp add: addValuePair_accepts c'_def)
  have tbl: "set (mValuePairs c') = insert (literalValue, numericalValue) (set (mValuePairs c))"
    by (simp add: c'_def set_insort_key)
  have rest: "c' = c \<lparr> mValuePairs := mValuePairs c' \<rparr>"
    by (simp add: c'_def)
  have "literalValue \<in> fst ` set (mValuePairs c')"
    by (simp add: tbl)
  then have again: "\<exists>error. addValuePair numericalValue literalValue c' = (False, Some error, c')"
    by (simp add: addValuePair_rejects)
  from ok tbl rest again
  show "\<exists>c'. addValuePair numericalValue literalValue c = (True, None, c')
         \<and> set (mValuePairs c') = insert (literalValue, numericalValue) (set (mValuePairs c))
         \<and> c' = c \<lparr> mValuePairs := mValuePairs c' \<rparr>
         \<and> (\<exists>error. addValuePair numericalValue literalValue c' = (False, Some error, c'))"
    by blast
qed

lemma ex_added:
  "addValuePair 1 ''X'' (Criterion_ctor ''mode'') =
     (True, None, (Criterion_ctor ''mode'') \<lparr> mValuePairs := [(''X'', 1)] \<rparr>)"
  by (simp add: addValuePair_def map_count_def map_emplace_def Criterion_ctor_def
      Criterion_init_def)

text \<open>
  The pair (1, "X") added to a new criterion, then added again, then its code under
  another label.
\<close>

theorem addValuePair_duplicate_witness:
  "''X'' \<notin> fst ` set (mValuePairs (Criterion_ctor ''mode''))
   \<and> 1 \<notin> snd ` set (mValuePairs (Criterion_ctor ''mode''))
   \<and> fst (addValuePair 1 ''X'' (Criterion_ctor ''mode''))
   \<and> mValuePairs (snd (snd (addValuePair 1 ''X'' (Criterion_ctor ''mode'')))) = [(''X'', 1)]
   \<and> 1 \<in> snd ` set (mValuePairs (snd (snd (addValuePair 1 ''X'' (Criterion_ctor ''mode'')))))
   \<and> addValuePair 1 ''X'' (snd (snd (addValuePair 1 ''X'' (Criterion_ctor ''mode''))))
       = (False, Some (LiteralAlreadyPresent ''X'' 1),
          snd (snd (addValuePair 1 ''X'' (Criterion_ctor ''mode''))))
   \<and> addValuePair 1 ''Y'' (snd (snd (addValuePair 1 ''X'' (Criterion_ctor ''mode''))))
       = (False, Some (NumericalAlreadyPresent ''Y'' 1),
          snd (snd (addValuePair 1 ''X'' (Criterion_ctor ''mode''))))"
  using addValuePair_duplicate [of "''X''" "Criterion_ctor ''mode''" 1]
    addValuePair_duplicate [of "''Y''"
      "snd (snd (addValuePair 1 ''X'' (Criterion_ctor ''mode'')))" 1]
  by (simp add: ex_added) (simp add: addValuePair_def map_count_def Criterion_ctor_def
      Criterion_init_def)

lemma find_value_distinct:
  "distinct (map snd m) \<Longrightarrow> (s, n) \<in> set m \<Longrightarrow> find (\<lambda>p. snd p = n) m = Some (s, n)"
  by (induction m) (auto simp add: rev_image_eqI)

lemma bijective_addValuePair:
  assumes "distinct (map fst (mValuePairs c))" and "distinct (map snd (mValuePairs c))"
  shows "distinct (map fst (mValuePairs (snd (snd (addValuePair n s c)))))
       \<and> distinct (map snd (mValuePairs (snd (snd (addValuePair n s c)))))"
proof (cases "s \<in> fst ` set (mValuePairs c) \<or> n \<in> snd ` set (mValuePairs c)")
  case True
  then show ?thesis using assms by (simp add: addValuePair_rejects)
next
  case False
  then show ?thesis using assms
    by (simp add: addValuePair_accepts distinct_map_insort_key_any)
qed

lemma bijective_call:
  assumes "distinct (map fst (mValuePairs c)) \<and> distinct (map snd (mValuePairs c))"
  shows "distinct (map fst (mValuePairs (call x c))) \<and> distinct (map snd (mValuePairs (call x c)))"
proof (cases x)
  case (SetCriterionState v)
  then show ?thesis using assms by (simp add: setCriterionState_def)
next
  case (AddValuePair n s)
  then show ?thesis using assms bijective_addValuePair [of c n s] by simp
next
  case ResetModifiedStatus
  then show ?thesis using assms by (simp add: Criterion_resetModifiedStatus_def)
qed

lemma bijective_calls:
  "distinct (map fst (mValuePairs c)) \<and> distinct (map snd (mValuePairs c)) \<Longrightarrow>
   distinct (map fst (mValuePairs (calls xs c))) \<and> distinct (map snd (mValuePairs (calls xs c)))"
  unfolding calls_def
proof (induction xs arbitrary: c)
  case Nil
  then show ?case by simp
next
  case (Cons x xs)
  from Cons.prems
  have "distinct (map fst (mValuePairs (call x c))) \<and> distinct (map snd (mValuePairs (call x c)))"
    by (rule bijective_call)
  then show ?case using Cons.IH by simp
qed

lemma lookups_inverse:
  assumes "distinct (map fst (mValuePairs c))" and "distinct (map snd (mValuePairs c))"
    and "(s, n) \<in> set (mValuePairs c)"
  shows "getNumericalValue s c = Some n \<and> getLiteralValue n c = Some s"
proof -
  from assms(1,3) have "map_of (mValuePairs c) s = Some n"
    by (rule map_of_is_SomeI)
  moreover from assms(2,3) have "find (\<lambda>p. snd p = n) (mValuePairs c) = Some (s, n)"
    by (rule find_value_distinct)
  ultimately show ?thesis
    by (simp add: getNumericalValue_def getLiteralValue_def)
qed

text \<open>
  Claim C5. For every criterion, of either kind and after any run of calls (the
  \<open>addValuePair\<close> calls that fail leave the table alone), the table is bijective: no
  two labels have the same code and no label has two codes; and for every registered
  pair \<open>(n, s)\<close>, \<open>getNumericalValue s\<close> yields \<open>n\<close> and \<open>getLiteralValue n\<close> yields
  \<open>s\<close>.
\<close>

theorem valuePairs_bijective:
  assumes "c = calls xs (Criterion_ctor name) \<or> c = calls xs (InclusiveCriterion_ctor name)"
  shows "(\<forall>s s' n. (s, n) \<in> set (mValuePairs c) \<and> (s', n) \<in> set (mValuePairs c) \<longrightarrow> s = s')
       \<and> (\<forall>s n n'. (s, n) \<in> set (mValuePairs c) \<and> (s, n') \<in> set (mValuePairs c) \<longrightarrow> n = n')
       \<and> (\<forall>(s, n) \<in> set (mValuePairs c).
            getNumericalValue s c = Some n \<and> getLiteralValue n c = Some s)"
proof -
  have d: "distinct (map fst (mValuePairs c)) \<and> distinct (map snd (mValuePairs c))"
    using assms
    by (auto intro!: bijective_calls [THEN conjunct1] bijective_calls [THEN conjunct2]
        simp add: Criterion_ctor_def InclusiveCriterion_ctor_def Criterion_init_def)
  have codes:
    "\<forall>s s' n. (s, n) \<in> set (mValuePairs c) \<and> (s', n) \<in> set (mValuePairs c) \<longrightarrow> s = s'"
    using d by (metis find_value_distinct option.inject prod.inject)
  have labels:
    "\<forall>s n n'. (s, n) \<in> set (mValuePairs c) \<and> (s, n') \<in> set (mValuePairs c) \<longrightarrow> n = n'"
    using d by (metis map_of_is_SomeI option.inject)
  have inv: "\<forall>(s, n) \<in> set (mValuePairs c).
            getNumericalValue s c = Some n \<and> getLiteralValue n c = Some s"
    using d lookups_inverse by blast
  from codes labels inv show ?thesis by blast
qed

lemma ex_calls:
  "calls [AddValuePair 1 ''X'', AddValuePair 2 ''Y'', AddValuePair 1 ''Z'', SetCriterionState 3,
          AddValuePair 4 ''A'']
     (InclusiveCriterion_ctor ''features'') =
   \<lparr> mValuePairs = [(''A'', 4), (''X'', 1), (''Y'', 2)],
     mMatchMethods = mMatchMethods (InclusiveCriterion_ctor ''features''),
     mState = 3, uiNbModifications = 1, mName = ''features'',
     dynamicClass = InclusiveCriterion \<rparr>"
  by (simp add: calls_def addValuePair_def setCriterionState_def map_count_def map_emplace_def
      InclusiveCriterion_ctor_def Criterion_init_def)

text \<open>
  An inclusive criterion after three accepted pairs, one rejected pair (the code 1 a
  second time) and a change of state.
\<close>

theorem valuePairs_bijective_witness:
  "(''Y'', 2) \<in> set (mValuePairs (calls [AddValuePair 1 ''X'', AddValuePair 2 ''Y'',
        AddValuePair 1 ''Z'', SetCriterionState 3, AddValuePair 4 ''A'']
        (InclusiveCriterion_ctor ''features'')))
   \<and> getNumericalValue ''Y'' (calls [AddValuePair 1 ''X'', AddValuePair 2 ''Y'',
        AddValuePair 1 ''Z'', SetCriterionState 3, AddValuePair 4 ''A'']
        (InclusiveCriterion_ctor ''features'')) = Some 2
   \<and> getLiteralValue 2 (calls [AddValuePair 1 ''X'', AddValuePair 2 ''Y'',
        AddValuePair 1 ''Z'', SetCriterionState 3, AddValuePair 4 ''A'']
        (InclusiveCriterion_ctor ''features'')) = Some ''Y''"
  using valuePairs_bijective [of
      "calls [AddValuePair 1 ''X'', AddValuePair 2 ''Y'',
        AddValuePair 1 ''Z'', SetCriterionState 3, AddValuePair 4 ''A'']
        (InclusiveCriterion_ctor ''features'')"
      "[AddValuePair 1 ''X'', AddValuePair 2 ''Y'',
        AddValuePair 1 ''Z'', SetCriterionState 3, AddValuePair 4 ''A'']" "''features''"]
  by (simp add: ex_calls)

section \<open>The registry\<close>

lemma getCriterionPointer_lookup:
  "getCriterionPointer cs name = Inr (map_option fst (map_of (mCriteria cs) name))"
  by (simp add: getCriterionPointer_def map_at_def split: option.splits)

lemma create_mCriteria:
  "mCriteria (snd (createExclusiveCriterion name cs)) =
     map_emplace name (nextAddr cs, Criterion_ctor name) (mCriteria cs)"
  "mCriteria (snd (createInclusiveCriterion name cs)) =
     map_emplace name (nextAddr cs, InclusiveCriterion_ctor name) (mCriteria cs)"
  "nextAddr (snd (createExclusiveCriterion name cs)) = Suc (nextAddr cs)"
  "nextAddr (snd (createInclusiveCriterion name cs)) = Suc (nextAddr cs)"
  by (simp_all add: createExclusiveCriterion_def createInclusiveCriterion_def Let_def)

lemma create_fst:
  "fst (createExclusiveCriterion name cs) =
     getCriterionPointer (snd (createExclusiveCriterion name cs)) name"
  "fst (createInclusiveCriterion name cs) =
     getCriterionPointer (snd (createInclusiveCriterion name cs)) name"
  by (simp_all add: createExclusiveCriterion_def createInclusiveCriterion_def Let_def)

lemma ex_registry:
  "snd (createInclusiveCriterion ''features''
     (snd (createExclusiveCriterion ''mode'' Criteria_ctor))) =
   \<lparr> mCriteria = [(''features'', 1, InclusiveCriterion_ctor ''features''),
                  (''mode'', 0, Criterion_ctor ''mode'')],
     nextAddr = 2 \<rparr>"
  by (simp add: createInclusiveCriterion_def createExclusiveCriterion_def Criteria_ctor_def
      map_emplace_def Let_def)

text \<open>
  Claim C6. For every registry and every name that is not registered in it,
  \<open>getCriterionPointer\<close>, and \<open>getSelectionCriterion\<close> which calls it, return the null
  handle as a normal result (\<open>Inr None\<close>); no exception reaches the caller.
\<close>

theorem getCriterion_miss:
  "name \<notin> fst ` set (mCriteria cs) \<Longrightarrow>
   getCriterionPointer cs name = Inr None \<and> getSelectionCriterion cs name = Inr None"
  by (simp add: getSelectionCriterion_def getCriterionPointer_lookup map_of_absent)

text \<open>A registry of "mode" and "features", asked for "volume".\<close>

theorem getCriterion_miss_witness:
  "''volume'' \<notin> fst ` set (mCriteria (snd (createInclusiveCriterion ''features''
       (snd (createExclusiveCriterion ''mode'' Criteria_ctor)))))
   \<and> getCriterionPointer (snd (createInclusiveCriterion ''features''
       (snd (createExclusiveCriterion ''mode'' Criteria_ctor)))) ''volume'' = Inr None
   \<and> getSelectionCriterion (snd (createInclusiveCriterion ''features''
       (snd (createExclusiveCriterion ''mode'' Criteria_ctor)))) ''volume'' = Inr None"
  using getCriterion_miss [of "''volume''" "snd (createInclusiveCriterion ''features''
       (snd (createExclusiveCriterion ''mode'' Criteria_ctor)))"]
  by (simp add: ex_registry)

text \<open>
  Claim C7, as stated, fails: \<open>createExclusiveCriterion\<close> with a name that is already
  registered does not overwrite the entry. After an inclusive "mode" is created, the
  creation of an exclusive "mode" leaves the inclusive one in the registry.
\<close>

theorem create_duplicate_overwrite_counterexample:
  "map_option isInclusive
     (registered (snd (createExclusiveCriterion ''mode''
        (snd (createInclusiveCriterion ''mode'' Criteria_ctor)))) ''mode'') = Some True
   \<and> registered (snd (createExclusiveCriterion ''mode''
        (snd (createInclusiveCriterion ''mode'' Criteria_ctor)))) ''mode''
     \<noteq> Some (Criterion_ctor ''mode'')"
  by (simp add: createInclusiveCriterion_def createExclusiveCriterion_def Criteria_ctor_def
      map_emplace_def Let_def registered_def isInclusive_def InclusiveCriterion_ctor_def
      Criterion_ctor_def Criterion_init_def)

text \<open>
  Claim C7, amended. For every registry, \<open>createExclusiveCriterion\<close> or
  \<open>createInclusiveCriterion\<close> with a name that is already registered leaves the
  entries of the registry as they were: the prior criterion stays under that name.
  With a name that is not registered yet, the registry afterwards holds the newly
  created criterion of the requested kind under that name.
\<close>

theorem create_duplicate_kept:
  "(name \<in> fst ` set (mCriteria cs) \<longrightarrow>
      mCriteria (snd (createExclusiveCriterion name cs)) = mCriteria cs
      \<and> mCriteria (snd (createInclusiveCriterion name cs)) = mCriteria cs
      \<and> registered (snd (createExclusiveCriterion name cs)) name = registered cs name
      \<and> registered (snd (createInclusiveCriterion name cs)) name = registered cs name)
   \<and> (name \<notin> fst ` set (mCriteria cs) \<longrightarrow>
      registered (snd (createExclusiveCriterion name cs)) name = Some (Criterion_ctor name)
      \<and> registered (snd (createInclusiveCriterion name cs)) name
          = Some (InclusiveCriterion_ctor name))"
proof (intro conjI impI)
  assume "name \<in> fst ` set (mCriteria cs)"
  then obtain w where w: "map_of (mCriteria cs) name = Some w"
    by (cases "map_of (mCriteria cs) name") (auto simp add: map_of_eq_None_iff)
  show x: "mCriteria (snd (createExclusiveCriterion name cs)) = mCriteria cs"
    using w by (simp add: create_mCriteria map_emplace_present)
  show i: "mCriteria (snd (createInclusiveCriterion name cs)) = mCriteria cs"
    using w by (simp add: create_mCriteria map_emplace_present)
  show "registered (snd (createExclusiveCriterion name cs)) name = registered cs name"
    using x by (simp add: registered_def)
  show "registered (snd (createInclusiveCriterion name cs)) name = registered cs name"
    using i by (simp add: registered_def)
next
  assume "name \<notin> fst ` set (mCriteria cs)"
  then have n: "map_of (mCriteria cs) name = None"
    by (rule map_of_absent)
  show "registered (snd (createExclusiveCriterion name cs)) name = Some (Criterion_ctor name)"
    using n by (simp add: registered_def create_mCriteria map_of_map_emplace_absent)
  show "registered (snd (createInclusiveCriterion name cs)) name
          = Some (InclusiveCriterion_ctor name)"
    using n by (simp add: registered_def create_mCriteria map_of_map_emplace_absent)
qed

text \<open>An inclusive "mode" created in the empty registry, then an exclusive "mode".\<close>

theorem create_duplicate_kept_witness:
  "''mode'' \<in> fst ` set (mCriteria (snd (createInclusiveCriterion ''mode'' Criteria_ctor)))
   \<and> ''mode'' \<notin> fst ` set (mCriteria Criteria_ctor)
   \<and> registered (snd (createInclusiveCriterion ''mode'' Criteria_ctor)) ''mode''
       = Some (InclusiveCriterion_ctor ''mode'')
   \<and> registered (snd (createExclusiveCriterion ''mode''
        (snd (createInclusiveCriterion ''mode'' Criteria_ctor)))) ''mode''
       = Some (InclusiveCriterion_ctor ''mode'')"
  using create_duplicate_kept [of "''mode''" Criteria_ctor]
    create_duplicate_kept [of "''mode''" "snd (createInclusiveCriterion ''mode'' Criteria_ctor)"]
  by (simp add: create_mCriteria map_emplace_def Criteria_ctor_def)

text \<open>
  The addresses of a registry are well formed from its construction on, through every
  creation, reset and change of a criterion through a handle.
\<close>

lemma wfCriteria_ctor: "wfCriteria Criteria_ctor"
  by (simp add: wfCriteria_def Criteria_ctor_def)

lemma wfCriteria_emplace:
  assumes "wfCriteria cs"
  shows "wfCriteria \<lparr> mCriteria = map_emplace name (nextAddr cs, c) (mCriteria cs),
                      nextAddr = Suc (nextAddr cs) \<rparr>"
proof (cases "map_of (mCriteria cs) name")
  case None
  from assms have "nextAddr cs \<notin> (\<lambda>w. fst (snd w)) ` set (mCriteria cs)"
    by (auto simp add: wfCriteria_def list_all_iff)
  with assms None show ?thesis
    by (auto simp add: wfCriteria_def list_all_iff map_emplace_absent
        distinct_map_insort_key_any set_insort_key)
next
  case (Some w)
  with assms show ?thesis
    by (auto simp add: wfCriteria_def list_all_iff map_emplace_present)
qed

lemma wfCriteria_create:
  "wfCriteria cs \<Longrightarrow> wfCriteria (snd (createExclusiveCriterion name cs))"
  "wfCriteria cs \<Longrightarrow> wfCriteria (snd (createInclusiveCriterion name cs))"
  by (simp_all add: createExclusiveCriterion_def createInclusiveCriterion_def Let_def
      wfCriteria_emplace)

lemma resetLoop_map:
  "resetLoop m =
     map (\<lambda>w. (fst w, fst (snd w), Criterion_resetModifiedStatus (snd (snd w)))) m"
  by (induction m) simp_all

lemma wfCriteria_reset: "wfCriteria cs \<Longrightarrow> wfCriteria (Criteria_resetModifiedStatus cs)"
  by (simp add: wfCriteria_def Criteria_resetModifiedStatus_def resetLoop_map comp_def
      list_all_iff)

lemma wfCriteria_through: "wfCriteria cs \<Longrightarrow> wfCriteria (through p f cs)"
  by (simp add: wfCriteria_def through_def comp_def list_all_iff)

lemma deref_entry:
  assumes "wfCriteria cs" and "(name, p, c) \<in> set (mCriteria cs)"
  shows "deref cs p = Some c"
proof -
  from assms(1) have "distinct (map fst (map snd (mCriteria cs)))"
    by (simp add: wfCriteria_def comp_def)
  moreover from assms(2) have "(p, c) \<in> set (map snd (mCriteria cs))"
    by force
  ultimately show ?thesis
    unfolding deref_def by (rule map_of_is_SomeI)
qed

lemma deref_fresh:
  assumes "wfCriteria cs" and "nextAddr cs \<le> a"
  shows "deref cs a = None"
proof -
  from assms have "a \<notin> fst ` set (map snd (mCriteria cs))"
    by (auto simp add: wfCriteria_def list_all_iff)
  then have "map_of (map snd (mCriteria cs)) a = None"
    by (rule map_of_absent)
  then show ?thesis
    by (simp add: deref_def)
qed

lemma deref_created:
  assumes "wfCriteria cs" and "map_of (mCriteria cs) name = None"
  shows "deref \<lparr> mCriteria = map_emplace name (nextAddr cs, c) (mCriteria cs),
                  nextAddr = Suc (nextAddr cs) \<rparr> (nextAddr cs) = Some c"
proof -
  have "wfCriteria \<lparr> mCriteria = map_emplace name (nextAddr cs, c) (mCriteria cs),
                      nextAddr = Suc (nextAddr cs) \<rparr>"
    using assms(1) by (rule wfCriteria_emplace)
  moreover have "(name, nextAddr cs, c) \<in>
      set (mCriteria \<lparr> mCriteria = map_emplace name (nextAddr cs, c) (mCriteria cs),
                        nextAddr = Suc (nextAddr cs) \<rparr>)"
    using assms(2) by (simp add: map_emplace_absent set_insort_key)
  ultimately show ?thesis
    by (rule deref_entry)
qed

text \<open>
  Claim C8. For every registry, \<open>createExclusiveCriterion\<close> and
  \<open>createInclusiveCriterion\<close> return a non-null handle. When the name was not
  registered yet, the handle is the address of the newly constructed criterion, which
  the registry now owns. When the name was registered already, with the criterion \<open>c\<close>
  (of either kind) at the address \<open>p\<close>, that criterion stays in the registry under the
  name, the handle returned is \<open>p\<close> and refers to \<open>c\<close>; it is not the address of the
  criterion just constructed, which the registry does not own.
\<close>

theorem create_returns_handle:
  assumes "wfCriteria cs"
  shows "(name \<notin> fst ` set (mCriteria cs) \<longrightarrow>
            fst (createExclusiveCriterion name cs) = Inr (Some (nextAddr cs))
          \<and> deref (snd (createExclusiveCriterion name cs)) (nextAddr cs)
              = Some (Criterion_ctor name)
          \<and> fst (createInclusiveCriterion name cs) = Inr (Some (nextAddr cs))
          \<and> deref (snd (createInclusiveCriterion name cs)) (nextAddr cs)
              = Some (InclusiveCriterion_ctor name))
       \<and> (map_of (mCriteria cs) name = Some (p, c) \<longrightarrow>
            fst (createExclusiveCriterion name cs) = Inr (Some p)
          \<and> fst (createInclusiveCriterion name cs) = Inr (Some p)
          \<and> p \<noteq> nextAddr cs
          \<and> registered (snd (createExclusiveCriterion name cs)) name = Some c
          \<and> registered (snd (createInclusiveCriterion name cs)) name = Some c
          \<and> deref (snd (createExclusiveCriterion name cs)) p = Some c
          \<and> deref (snd (createInclusiveCriterion name cs)) p = Some c
          \<and> deref (snd (createExclusiveCriterion name cs)) (nextAddr cs) = None
          \<and> deref (snd (createInclusiveCriterion name cs)) (nextAddr cs) = None)"
proof (intro conjI impI)
  assume "name \<notin> fst ` set (mCriteria cs)"
  then have n: "map_of (mCriteria cs) name = None"
    by (rule map_of_absent)
  show "fst (createExclusiveCriterion name cs) = Inr (Some (nextAddr cs))"
    using n by (simp add: create_fst getCriterionPointer_lookup create_mCriteria
        map_of_map_emplace_absent)
  show "fst (createInclusiveCriterion name cs) = Inr (Some (nextAddr cs))"
    using n by (simp add: create_fst getCriterionPointer_lookup create_mCriteria
        map_of_map_emplace_absent)
  show "deref (snd (createExclusiveCriterion name cs)) (nextAddr cs) = Some (Criterion_ctor name)"
    using deref_created [OF assms n]
    by (simp add: createExclusiveCriterion_def Let_def)
  show "deref (snd (createInclusiveCriterion name cs)) (nextAddr cs)
          = Some (InclusiveCriterion_ctor name)"
    using deref_created [OF assms n]
    by (simp add: createInclusiveCriterion_def Let_def)
next
  assume w: "map_of (mCriteria cs) name = Some (p, c)"
  then have mem: "(name, p, c) \<in> set (mCriteria cs)"
    by (rule map_of_SomeD)
  have x: "snd (createExclusiveCriterion name cs) = cs \<lparr> nextAddr := Suc (nextAddr cs) \<rparr>"
    using w by (simp add: createExclusiveCriterion_def Let_def map_emplace_present)
  have i: "snd (createInclusiveCriterion name cs) = cs \<lparr> nextAddr := Suc (nextAddr cs) \<rparr>"
    using w by (simp add: createInclusiveCriterion_def Let_def map_emplace_present)
  have same: "deref (cs \<lparr> nextAddr := Suc (nextAddr cs) \<rparr>) a = deref cs a" for a
    by (simp add: deref_def)
  show "fst (createExclusiveCriterion name cs) = Inr (Some p)"
    using w by (simp add: create_fst x getCriterionPointer_lookup)
  show "fst (createInclusiveCriterion name cs) = Inr (Some p)"
    using w by (simp add: create_fst i getCriterionPointer_lookup)
  show "p \<noteq> nextAddr cs"
    using assms mem by (auto simp add: wfCriteria_def list_all_iff)
  show "registered (snd (createExclusiveCriterion name cs)) name = Some c"
    using w by (simp add: x registered_def)
  show "registered (snd (createInclusiveCriterion name cs)) name = Some c"
    using w by (simp add: i registered_def)
  show "deref (snd (createExclusiveCriterion name cs)) p = Some c"
    using deref_entry [OF assms mem] by (simp add: x same)
  show "deref (snd (createInclusiveCriterion name cs)) p = Some c"
    using deref_entry [OF assms mem] by (simp add: i same)
  show "deref (snd (createExclusiveCriterion name cs)) (nextAddr cs) = None"
    using deref_fresh [OF assms order_refl] by (simp add: x same)
  show "deref (snd (createInclusiveCriterion name cs)) (nextAddr cs) = None"
    using deref_fresh [OF assms order_refl] by (simp add: i same)
qed

lemma ex_mode:
  "snd (createInclusiveCriterion ''mode'' Criteria_ctor) =
     \<lparr> mCriteria = [(''mode'', 0, InclusiveCriterion_ctor ''mode'')], nextAddr = 1 \<rparr>"
  by (simp add: createInclusiveCriterion_def Criteria_ctor_def map_emplace_def Let_def)

text \<open>
  An inclusive "mode" created in the empty registry, then an exclusive "mode": both
  calls return the address 0, where the inclusive criterion is.
\<close>

theorem create_returns_handle_witness:
  "wfCriteria Criteria_ctor
   \<and> ''mode'' \<notin> fst ` set (mCriteria Criteria_ctor)
   \<and> fst (createInclusiveCriterion ''mode'' Criteria_ctor) = Inr (Some 0)
   \<and> wfCriteria (snd (createInclusiveCriterion ''mode'' Criteria_ctor))
   \<and> map_of (mCriteria (snd (createInclusiveCriterion ''mode'' Criteria_ctor))) ''mode''
       = Some (0, InclusiveCriterion_ctor ''mode'')
   \<and> fst (createExclusiveCriterion ''mode'' (snd (createInclusiveCriterion ''mode'' Criteria_ctor)))
       = Inr (Some 0)
   \<and> deref (snd (createExclusiveCriterion ''mode''
        (snd (createInclusiveCriterion ''mode'' Criteria_ctor)))) 0
       = Some (InclusiveCriterion_ctor ''mode'')
   \<and> deref (snd (createExclusiveCriterion ''mode''
        (snd (createInclusiveCriterion ''mode'' Criteria_ctor)))) 1 = None"
  using create_returns_handle [of Criteria_ctor "''mode''" 0 "InclusiveCriterion_ctor ''mode''"]
    create_returns_handle [of "snd (createInclusiveCriterion ''mode'' Criteria_ctor)" "''mode''"
      0 "InclusiveCriterion_ctor ''mode''"]
    wfCriteria_ctor wfCriteria_create(2) [OF wfCriteria_ctor, of "''mode''"]
  by (simp add: ex_mode) (simp add: Criteria_ctor_def)

lemma map_of_resetLoop:
  "map_of (resetLoop m) name =
     map_option (\<lambda>v. (fst v, Criterion_resetModifiedStatus (snd v))) (map_of m name)"
  by (induction m) auto

lemma registered_reset:
  "registered (Criteria_resetModifiedStatus cs) name =
     map_option Criterion_resetModifiedStatus (registered cs name)"
  by (simp add: registered_def Criteria_resetModifiedStatus_def map_of_resetLoop
      option.map_comp comp_def)

lemma not_modified_reset: "\<not> hasBeenModified (Criterion_resetModifiedStatus c)"
  by (simp add: hasBeenModified_def Criterion_resetModifiedStatus_def)

text \<open>
  Claim C9. For every registry, \<open>resetModifiedStatus\<close> resets the modification
  counter of every registered criterion in its one loop: afterwards
  \<open>hasBeenModified\<close> is false for every criterion in the registry, reached through
  the entries, through a handle or by name. The names are the same, and each
  criterion is the one it was with its counter reset.
\<close>

theorem resetModifiedStatus_all:
  "(\<forall>w \<in> set (mCriteria (Criteria_resetModifiedStatus cs)). \<not> hasBeenModified (snd (snd w)))
   \<and> (\<forall>p c. deref (Criteria_resetModifiedStatus cs) p = Some c \<longrightarrow> \<not> hasBeenModified c)
   \<and> map fst (mCriteria (Criteria_resetModifiedStatus cs)) = map fst (mCriteria cs)
   \<and> registered (Criteria_resetModifiedStatus cs) name =
       map_option Criterion_resetModifiedStatus (registered cs name)"
proof (intro conjI allI impI)
  show all: "\<forall>w \<in> set (mCriteria (Criteria_resetModifiedStatus cs)).
      \<not> hasBeenModified (snd (snd w))"
    by (simp add: Criteria_resetModifiedStatus_def resetLoop_map not_modified_reset)
  show "\<not> hasBeenModified c" if "deref (Criteria_resetModifiedStatus cs) p = Some c" for p c
  proof -
    from that have "(p, c) \<in> set (map snd (mCriteria (Criteria_resetModifiedStatus cs)))"
      unfolding deref_def by (rule map_of_SomeD)
    then obtain w where "w \<in> set (mCriteria (Criteria_resetModifiedStatus cs))"
      and "snd w = (p, c)"
      by auto
    with all show ?thesis by fastforce
  qed
  show "map fst (mCriteria (Criteria_resetModifiedStatus cs)) = map fst (mCriteria cs)"
    by (simp add: Criteria_resetModifiedStatus_def resetLoop_map comp_def)
  show "registered (Criteria_resetModifiedStatus cs) name =
       map_option Criterion_resetModifiedStatus (registered cs name)"
    by (rule registered_reset)
qed

lemma ex_touched:
  "through 0 (setCriterionState 2)
     (snd (createInclusiveCriterion ''features''
        (snd (createExclusiveCriterion ''mode'' Criteria_ctor)))) =
   \<lparr> mCriteria = [(''features'', 1, InclusiveCriterion_ctor ''features''),
                  (''mode'', 0, setCriterionState 2 (Criterion_ctor ''mode''))],
     nextAddr = 2 \<rparr>"
  by (simp add: ex_registry through_def)

text \<open>
  A registry of "mode" and "features", where "mode" was set to 2 through its handle:
  modified before the reset, not modified after it, its state still 2.
\<close>

theorem resetModifiedStatus_all_witness:
  "map_option hasBeenModified
     (registered (through 0 (setCriterionState 2)
        (snd (createInclusiveCriterion ''features''
           (snd (createExclusiveCriterion ''mode'' Criteria_ctor))))) ''mode'') = Some True
   \<and> (''mode'', 0, Criterion_resetModifiedStatus (setCriterionState 2 (Criterion_ctor ''mode'')))
       \<in> set (mCriteria (Criteria_resetModifiedStatus (through 0 (setCriterionState 2)
        (snd (createInclusiveCriterion ''features''
           (snd (createExclusiveCriterion ''mode'' Criteria_ctor)))))))
   \<and> \<not> hasBeenModified
         (Criterion_resetModifiedStatus (setCriterionState 2 (Criterion_ctor ''mode'')))
   \<and> map_option hasBeenModified
     (registered (Criteria_resetModifiedStatus (through 0 (setCriterionState 2)
        (snd (createInclusiveCriterion ''features''
           (snd (createExclusiveCriterion ''mode'' Criteria_ctor)))))) ''mode'') = Some False
   \<and> map_option mState
     (deref (Criteria_resetModifiedStatus (through 0 (setCriterionState 2)
        (snd (createInclusiveCriterion ''features''
           (snd (createExclusiveCriterion ''mode'' Criteria_ctor)))))) 0) = Some 2"
  using resetModifiedStatus_all [of "through 0 (setCriterionState 2)
        (snd (createInclusiveCriterion ''features''
           (snd (createExclusiveCriterion ''mode'' Criteria_ctor))))" "''mode''"]
  by (simp add: ex_touched registered_def deref_def Criteria_resetModifiedStatus_def
      hasBeenModified_def setCriterionState_def Criterion_resetModifiedStatus_def
      Criterion_ctor_def Criterion_init_def)

lemma listLoop_append:
  "listLoop f t h m results = results @ map (\<lambda>w. f t h (snd (snd w))) m"
  by (induction m arbitrary: results) simp_all

text \<open>
  Claim C10. For every registry and every way \<open>f\<close> of formatting a description,
  \<open>listSelectionCriteria\<close> appends to the list it is given exactly one description
  per registered criterion, the description of the \<open>k\<close>-th entry in iteration order
  at the \<open>k\<close>-th place, and returns the registry as it was.
\<close>

theorem listSelectionCriteria_one_each:
  "listSelectionCriteria f results withTypeInfo humanReadable cs =
     (results @ map (\<lambda>w. f withTypeInfo humanReadable (snd (snd w))) (mCriteria cs), cs)
   \<and> length (fst (listSelectionCriteria f results withTypeInfo humanReadable cs)) =
       length results + length (mCriteria cs)"
  by (simp add: listSelectionCriteria_def listLoop_append)

text \<open>
  A registry of "mode" and "features", listed with type information by a description
  that is the name and a letter for the kind.
\<close>

theorem listSelectionCriteria_one_each_witness:
  "listSelectionCriteria (\<lambda>t h c. mName c @ (if t then (if isInclusive c then '' I'' else '' E'') else []))
     [''earlier''] True False
     (snd (createInclusiveCriterion ''features''
        (snd (createExclusiveCriterion ''mode'' Criteria_ctor)))) =
   ([''earlier'', ''features I'', ''mode E''],
    snd (createInclusiveCriterion ''features''
        (snd (createExclusiveCriterion ''mode'' Criteria_ctor))))"
  using listSelectionCriteria_one_each [of
      "\<lambda>t h c. mName c @ (if t then (if isInclusive c then '' I'' else '' E'') else [])"
      "[''earlier'']" True False
      "snd (createInclusiveCriterion ''features''
        (snd (createExclusiveCriterion ''mode'' Criteria_ctor)))"]
  by (simp add: ex_registry isInclusive_def InclusiveCriterion_ctor_def Criterion_ctor_def
      Criterion_init_def)

end
